theory Spec2Isabelle
  imports Complex_Main
begin

section \<open>Spectral residual anomaly detector: the series extender\<close>

text \<open>
  The embedding follows \<^verbatim>\<open>msanomalydetector/spectral_residual.py\<close>. Python floats are
  idealised as \<^typ>\<open>real\<close>, Python integers are \<^typ>\<open>int\<close>, a Python list of floats is a
  \<^typ>\<open>real list\<close>. A raised exception is the left injection of a sum type.
\<close>

datatype error = ValueError string

subsection \<open>Python list slicing\<close>

text \<open>
  \<^verbatim>\<open>xs[start:stop]\<close> for integer bounds: a negative bound counts from the end, and both
  bounds are clipped to the range of the list; an empty range gives the empty list.
\<close>

definition py_index :: "nat \<Rightarrow> int \<Rightarrow> nat" where
  "py_index n i = (if i < 0 then nat (max 0 (int n + i)) else min n (nat i))"

definition py_slice :: "'a list \<Rightarrow> int \<Rightarrow> int \<Rightarrow> 'a list" where
  "py_slice xs start stop =
     (let s = py_index (length xs) start; e = py_index (length xs) stop
      in take (e - s) (drop s xs))"

subsection \<open>predict_next and extend_series\<close>

text \<open>
  \<^verbatim>\<open>slopes = [(v_last - v) / (n - 1 - i) for i, v in enumerate(values[:-1])]\<close>
  and the result is \<^verbatim>\<open>values[1] + sum(slopes)\<close>.
\<close>

definition slopes :: "real list \<Rightarrow> real list" where
  "slopes values =
     (let v_last = last values; n = int (length values)
      in map (\<lambda>(i, v). (v_last - v) / real_of_int (n - 1 - int i))
           (enumerate 0 (butlast values)))"

definition predict_next :: "real list \<Rightarrow> error + real" where
  "predict_next values =
     (if length values \<le> 1 then Inl (ValueError ''data should contain at least 2 numbers'')
      else Inr (values ! 1 + sum_list (slopes values)))"

text \<open>
  \<^verbatim>\<open>[predict_next(values[-look_ahead - 2:-1])] * extend_num\<close>: repeating a list a
  negative number of times gives the empty list, which is what \<^term>\<open>nat\<close> does here.
\<close>

definition extend_series :: "real list \<Rightarrow> int \<Rightarrow> int \<Rightarrow> error + real list" where
  "extend_series values extend_num look_ahead =
     (if look_ahead < 1 then Inl (ValueError ''look_ahead must be at least 1'')
      else case predict_next (py_slice values (- look_ahead - 2) (- 1)) of
             Inl e \<Rightarrow> Inl e
           | Inr p \<Rightarrow> Inr (values @ replicate (nat extend_num) p))"

section \<open>The numpy and pandas operations the detector uses\<close>

text \<open>
  Binding of a computation that may raise: the first exception is the result.
\<close>

definition bindE :: "error + 'a \<Rightarrow> ('a \<Rightarrow> error + 'b) \<Rightarrow> error + 'b" where
  "bindE m f = (case m of Inl e \<Rightarrow> Inl e | Inr x \<Rightarrow> f x)"

text \<open>
  An elementwise binary operation on two one-dimensional arrays: equal shapes are combined
  pointwise, a one-element array is stretched to the other shape, anything else raises.
\<close>

definition np_broadcast :: "('a \<Rightarrow> 'b \<Rightarrow> 'c) \<Rightarrow> 'a list \<Rightarrow> 'b list \<Rightarrow> error + 'c list" where
  "np_broadcast f a b =
     (if length a = length b then Inr (map2 f a b)
      else if length a = 1 then Inr (map (f (hd a)) b)
      else if length b = 1 then Inr (map (\<lambda>x. f x (hd b)) a)
      else Inl (ValueError ''operands could not be broadcast together''))"

text \<open>
  Assigning an array to a slot of \<open>n\<close> elements (\<^verbatim>\<open>trans.real = ...\<close>): the value must
  have that shape or one element.
\<close>

definition np_assign :: "nat \<Rightarrow> 'a list \<Rightarrow> error + 'a list" where
  "np_assign n x =
     (if length x = n then Inr x
      else if length x = 1 then Inr (replicate n (hd x))
      else Inl (ValueError ''could not broadcast input array''))"

text \<open>\<^verbatim>\<open>np.where(cond)[0]\<close>: the indices at which the condition holds, ascending.\<close>

definition np_where :: "('a \<Rightarrow> bool) \<Rightarrow> 'a list \<Rightarrow> nat list" where
  "np_where p a = filter (\<lambda>i. p (a ! i)) [0..<length a]"

text \<open>\<^verbatim>\<open>a[index] = v\<close> for an index array produced by \<^term>\<open>np_where\<close>.\<close>

definition np_put :: "'a list \<Rightarrow> nat list \<Rightarrow> 'a \<Rightarrow> 'a list" where
  "np_put a index v = foldl (\<lambda>acc i. acc[i := v]) a index"

definition np_clip :: "real \<Rightarrow> real \<Rightarrow> real \<Rightarrow> real" where
  "np_clip x a_min a_max = min (max x a_min) a_max"

text \<open>\<^verbatim>\<open>np.sqrt(c.real ** 2 + c.imag ** 2)\<close>\<close>

definition magnitude :: "complex \<Rightarrow> real" where
  "magnitude c = sqrt ((Re c)\<^sup>2 + (Im c)\<^sup>2)"

text \<open>
  numpy orders complex numbers lexicographically, by real part and then by imaginary part;
  this is the order \<^verbatim>\<open><=\<close> uses when one operand is a complex array.
\<close>

definition np_less_equal :: "complex \<Rightarrow> complex \<Rightarrow> bool" where
  "np_less_equal a b = (Re a < Re b \<or> (Re a = Re b \<and> Im a \<le> Im b))"

text \<open>
  The discrete Fourier transform as \<^verbatim>\<open>np.fft\<close> defines it: the forward transform has the
  negative exponent and no scaling, the inverse the positive exponent and the factor
  \<open>1/n\<close>. Both raise on an empty array.
\<close>

definition dft :: "real \<Rightarrow> complex list \<Rightarrow> complex list" where
  "dft sign a =
     (let n = length a
      in map (\<lambda>k. \<Sum>j<n. a ! j * cis (sign * 2 * pi * real j * real k / real n)) [0..<n])"

definition np_fft_fft :: "complex list \<Rightarrow> error + complex list" where
  "np_fft_fft a =
     (if a = [] then Inl (ValueError ''Invalid number of FFT data points (0) specified.'')
      else Inr (dft (- 1) a))"

definition np_fft_ifft :: "complex list \<Rightarrow> error + complex list" where
  "np_fft_ifft a =
     (if a = [] then Inl (ValueError ''Invalid number of FFT data points (0) specified.'')
      else Inr (map (\<lambda>c. c / of_nat (length a)) (dft 1 a)))"

text \<open>
  Assigning a column to a data frame of \<open>n\<close> rows
  (\<^verbatim>\<open>anomaly_frame[col] = array\<close>): the array must have \<open>n\<close> elements.
\<close>

definition set_column :: "nat \<Rightarrow> 'a list \<Rightarrow> error + 'a list" where
  "set_column n x =
     (if length x = n then Inr x
      else Inl (ValueError ''Length of values does not match length of index''))"

section \<open>The collaborators\<close>

text \<open>
  \<^verbatim>\<open>msanomalydetector.util\<close> (\<^verbatim>\<open>EPS\<close>, \<^verbatim>\<open>average_filter\<close>,
  \<^verbatim>\<open>deanomaly_entire\<close>, \<^verbatim>\<open>DetectMode\<close>) and \<^verbatim>\<open>msanomalydetector.boundary_utils\<close> are
  imported by the detector and are not among the sources. The constant and the functions
  are parameters of the model: pure functions over arrays, collected in one record.
\<close>

text \<open>
  Modelled from the spec: the enumeration \<^verbatim>\<open>DetectMode\<close> of \<^verbatim>\<open>util.py\<close>, with the two
  members the spec names; the detector tests for \<^verbatim>\<open>DetectMode.anomaly_and_margin\<close>.
\<close>

datatype DetectMode = anomaly_only | anomaly_and_margin

record collaborators =
  EPS :: real
  average_filter :: "real list \<Rightarrow> int \<Rightarrow> real list"
  deanomaly_entire :: "real list \<Rightarrow> nat list \<Rightarrow> real list"
  calculate_bounary_unit_entire :: "real list \<Rightarrow> bool list \<Rightarrow> real list"
  calculate_anomaly_scores :: "real list \<Rightarrow> complex list \<Rightarrow> real list \<Rightarrow> bool list \<Rightarrow> real list"
  calculate_margin :: "real \<Rightarrow> real \<Rightarrow> real"

section \<open>The detector\<close>

text \<open>
  The report is a data frame indexed by \<^verbatim>\<open>AnomalyId\<close>, modelled by its columns. The three
  margin columns exist only after the margin pass. The expected value is the array
  \<^verbatim>\<open>np.fft.ifft\<close> returns, a complex array, and so are the two boundaries computed from it.
\<close>

record 'ts anomaly_frame =
  AnomalyId :: "nat list"
  Timestamp :: "'ts list"
  Value :: "real list"
  Mag :: "real list"
  AnomalyScore :: "real list"
  IsAnomaly :: "bool list"
  ExpectedValue :: "complex list option"
  LowerBoundary :: "complex list option"
  UpperBoundary :: "complex list option"

text \<open>
  The instance: the fields \<^verbatim>\<open>__init__\<close> sets. The series is a frame with the columns
  \<^verbatim>\<open>timestamp\<close> and \<^verbatim>\<open>value\<close>, modelled as the list of its rows.
\<close>

record 'ts SpectralResidual =
  sr_series :: "('ts \<times> real) list"
  sr_values :: "real list"
  sr_threshold :: real
  sr_mag_window :: int
  sr_score_window :: int
  sr_sensitivity :: real
  sr_detect_mode :: DetectMode
  sr_anomaly_frame :: "'ts anomaly_frame option"

definition SpectralResidual_init ::
  "('ts \<times> real) list \<Rightarrow> real \<Rightarrow> int \<Rightarrow> int \<Rightarrow> real \<Rightarrow> DetectMode \<Rightarrow> 'ts SpectralResidual" where
  "SpectralResidual_init series threshold mag_window score_window sensitivity detect_mode =
     \<lparr>sr_series = series, sr_values = map snd series, sr_threshold = threshold,
      sr_mag_window = mag_window, sr_score_window = score_window,
      sr_sensitivity = sensitivity, sr_detect_mode = detect_mode,
      sr_anomaly_frame = None\<rparr>"

subsection \<open>generate_spectral_score\<close>

definition generate_spectral_score :: "collaborators \<Rightarrow> int \<Rightarrow> real list \<Rightarrow> error + real list" where
  "generate_spectral_score env score_window mags =
     (let ave = average_filter env mags score_window;
          ave_mag = np_put ave (np_where (\<lambda>a. a \<le> EPS env) ave) (EPS env)
      in bindE (np_broadcast (\<lambda>m a. m - a) mags ave_mag) (\<lambda>d.
         bindE (np_broadcast (\<lambda>x a. x / a) (map abs d) ave_mag) (\<lambda>raw_scores.
         Inr (map (\<lambda>r. np_clip (r / 10) 0 1) raw_scores))))"

subsection \<open>spectral_residual_transform\<close>

definition spectral_residual_transform :: "collaborators \<Rightarrow> int \<Rightarrow> real list \<Rightarrow> error + real list" where
  "spectral_residual_transform env mag_window vals =
     bindE (np_fft_fft (map complex_of_real vals)) (\<lambda>trans.
       let mag0 = map magnitude trans;
           eps_index = np_where (\<lambda>m. m \<le> EPS env) mag0;
           mag = np_put mag0 eps_index (EPS env);
           mag_log = np_put (map ln mag) eps_index 0
       in bindE (np_broadcast (\<lambda>l a. l - a) mag_log (average_filter env mag_log mag_window)) (\<lambda>d.
          let spectral = map exp d
          in bindE (np_broadcast (\<lambda>x y. x * y) (map Re trans) spectral) (\<lambda>re1.
             bindE (np_broadcast (\<lambda>x y. x / y) re1 mag) (\<lambda>re2.
             bindE (np_assign (length trans) re2) (\<lambda>re3.
             bindE (np_broadcast (\<lambda>x y. x * y) (map Im trans) spectral) (\<lambda>im1.
             bindE (np_broadcast (\<lambda>x y. x / y) im1 mag) (\<lambda>im2.
             bindE (np_assign (length trans) im2) (\<lambda>im3.
             bindE (np_fft_ifft (map2 Complex (np_put re3 eps_index 0) (np_put im3 eps_index 0)))
               (\<lambda>wave_r. Inr (map magnitude wave_r))))))))))"

subsection \<open>calculate_expected_value\<close>

text \<open>
  \<^verbatim>\<open>[v if length * 3 / 8 >= i or i >= length * 5 / 8 else 0 for i, v in enumerate(xs)]\<close>,
  applied to the real parts and to the imaginary parts of the coefficients.
\<close>

definition band_filter :: "nat \<Rightarrow> real list \<Rightarrow> real list" where
  "band_filter len xs =
     map (\<lambda>(i, v). if real len * 3 / 8 \<ge> real i \<or> real i \<ge> real len * 5 / 8 then v else 0)
       (enumerate 0 xs)"

definition filtered_spectrum :: "complex list \<Rightarrow> complex list" where
  "filtered_spectrum fft_coef =
     map2 Complex (band_filter (length fft_coef) (map Re fft_coef))
                  (band_filter (length fft_coef) (map Im fft_coef))"

definition calculate_expected_value ::
  "collaborators \<Rightarrow> real list \<Rightarrow> nat list \<Rightarrow> error + complex list" where
  "calculate_expected_value env vals anomaly_index =
     (let cleaned = deanomaly_entire env vals anomaly_index
      in bindE (np_fft_fft (map complex_of_real cleaned)) (\<lambda>fft_coef.
           np_fft_ifft (filtered_spectrum fft_coef)))"

subsection \<open>The detection pass\<close>

text \<open>
  The frame built at lines 58 to 64: every array given to the constructor must have as
  many elements as the series has rows.
\<close>

definition new_anomaly_frame ::
  "('ts \<times> real) list \<Rightarrow> real \<Rightarrow> real list \<Rightarrow> real list \<Rightarrow> error + 'ts anomaly_frame" where
  "new_anomaly_frame series threshold mags anomaly_scores =
     (if length anomaly_scores = length series \<and> length mags = length series
      then Inr \<lparr>AnomalyId = [0..<length anomaly_scores],
                Timestamp = map fst series,
                Value = map snd series,
                Mag = mags,
                AnomalyScore = anomaly_scores,
                IsAnomaly = map (\<lambda>s. s \<ge> threshold) anomaly_scores,
                ExpectedValue = None, LowerBoundary = None, UpperBoundary = None\<rparr>
      else Inl (ValueError ''array length does not match index length''))"

text \<open>The body of the margin branch, lines 66 to 84.\<close>

definition margin_pass ::
  "collaborators \<Rightarrow> 'ts SpectralResidual \<Rightarrow> 'ts anomaly_frame \<Rightarrow> error + 'ts anomaly_frame" where
  "margin_pass env self frame =
     (let n = length (AnomalyId frame);
          anomaly_index = map fst (filter snd (zip (AnomalyId frame) (IsAnomaly frame)))
      in bindE (calculate_expected_value env (sr_values self) anomaly_index) (\<lambda>exps.
         bindE (set_column n exps) (\<lambda>expected.
         let boundary_units = calculate_bounary_unit_entire env (sr_values self) (IsAnomaly frame)
         in bindE (set_column n
                    (calculate_anomaly_scores env (Value frame) expected boundary_units
                       (IsAnomaly frame))) (\<lambda>scores.
            let margins = map (\<lambda>u. calculate_margin env u (sr_sensitivity self)) boundary_units
            in bindE (np_broadcast (\<lambda>e m. e - complex_of_real m) expected margins) (\<lambda>lo.
               bindE (set_column n lo) (\<lambda>lower.
               bindE (np_broadcast (\<lambda>e m. e + complex_of_real m) expected margins) (\<lambda>hi.
               bindE (set_column n hi) (\<lambda>upper.
               let value = map complex_of_real (Value frame);
                   flags1 = map2 (\<and>) (IsAnomaly frame) (map2 np_less_equal lower value);
                   flags2 = map2 (\<and>) flags1 (map2 np_less_equal value upper)
               in Inr (frame\<lparr>AnomalyScore := scores, IsAnomaly := flags2,
                                ExpectedValue := Some expected,
                                LowerBoundary := Some lower,
                                UpperBoundary := Some upper\<rparr>)))))))))"

definition SpectralResidual_detect ::
  "collaborators \<Rightarrow> 'ts SpectralResidual \<Rightarrow> error + 'ts anomaly_frame" where
  "SpectralResidual_detect env self =
     bindE (extend_series (sr_values self) 5 5) (\<lambda>extended_series.
     bindE (spectral_residual_transform env (sr_mag_window self) extended_series) (\<lambda>m.
     let mags = take (length (sr_series self)) m
     in bindE (generate_spectral_score env (sr_score_window self) mags) (\<lambda>anomaly_scores.
        bindE (new_anomaly_frame (sr_series self) (sr_threshold self) mags anomaly_scores)
          (\<lambda>frame.
             if sr_detect_mode self = anomaly_and_margin then margin_pass env self frame
             else Inr frame))))"

text \<open>
  The public \<^verbatim>\<open>detect\<close>: the frame is computed when the cache is empty and stored; the
  cached frame is returned. An exception of the computation leaves the cache empty.
\<close>

definition detect ::
  "collaborators \<Rightarrow> 'ts SpectralResidual \<Rightarrow> (error + 'ts anomaly_frame) \<times> 'ts SpectralResidual" where
  "detect env self =
     (case sr_anomaly_frame self of
        None \<Rightarrow>
          (case SpectralResidual_detect env self of
             Inl e \<Rightarrow> (Inl e, self)
           | Inr frame \<Rightarrow> (Inr frame, self\<lparr>sr_anomaly_frame := Some frame\<rparr>))
      | Some frame \<Rightarrow> (Inr frame, self))"

section \<open>Contracts of the collaborators\<close>

text \<open>
  Modelled from the spec: \<^verbatim>\<open>util.py\<close> and \<^verbatim>\<open>boundary_utils.py\<close> are not among the
  sources. The spec describes the moving average as producing a value for each position,
  the denoising routine as replacing the values at the anomalous indices, the boundary
  units as one estimate per point and the rescaled scores as one score per record. That
  every collaborator returns an array as long as the series is the shape contract below.
\<close>

definition average_filter_shape :: "collaborators \<Rightarrow> bool" where
  "average_filter_shape env \<longleftrightarrow> (\<forall>xs n. length (average_filter env xs n) = length xs)"

definition well_shaped :: "collaborators \<Rightarrow> bool" where
  "well_shaped env \<longleftrightarrow>
     average_filter_shape env
     \<and> (\<forall>vs idx. length (deanomaly_entire env vs idx) = length vs)
     \<and> (\<forall>vs fl. length (calculate_bounary_unit_entire env vs fl) = length vs)
     \<and> (\<forall>vs ev us fl. length (calculate_anomaly_scores env vs ev us fl) = length vs)"

text \<open>
  Modelled from the spec: \<^verbatim>\<open>boundary_utils.calculate_anomaly_scores\<close> is not among the
  sources. The spec's data model gives every record an anomaly score in \<open>[0, 1]\<close> and
  says that in margin mode the boundary calculator's rescaled scores replace the raw ones;
  so the scores that collaborator returns lie in \<open>[0, 1]\<close>.
\<close>

definition boundary_scores_bounded :: "collaborators \<Rightarrow> bool" where
  "boundary_scores_bounded env \<longleftrightarrow>
     (\<forall>vs ev us fl. \<forall>s \<in> set (calculate_anomaly_scores env vs ev us fl). 0 \<le> s \<and> s \<le> 1)"

section \<open>An instance of the collaborators and of the detector\<close>

text \<open>
  A concrete set of collaborators that meets both contracts, and a detector over a series
  of three points. The theorems below are instantiated on them. The moving average is the
  mean of the window of at most \<open>n\<close> values that ends at each position.
\<close>

definition moving_average :: "real list \<Rightarrow> int \<Rightarrow> real list" where
  "moving_average xs n =
     map (\<lambda>i. let w = take (Suc i - (Suc i - nat n)) (drop (Suc i - nat n) xs)
              in sum_list w / real (length w))
       [0..<length xs]"

definition example_collaborators :: collaborators where
  "example_collaborators =
     \<lparr>EPS = 1 / 10 ^ 8,
      average_filter = moving_average,
      deanomaly_entire = (\<lambda>vs idx. map (\<lambda>i. if i \<in> set idx then 0 else vs ! i) [0..<length vs]),
      calculate_bounary_unit_entire = (\<lambda>vs fl. map (\<lambda>v. 1) vs),
      calculate_anomaly_scores =
        (\<lambda>vs ev us fl. map (\<lambda>i. if i < length fl \<and> fl ! i then 1 else 0) [0..<length vs]),
      calculate_margin = (\<lambda>u s. u * (100 - s) / 100)\<rparr>"

definition example_series :: "(nat \<times> real) list" where
  "example_series = [(0, 1), (1, 2), (2, 4)]"

definition example_detector :: "DetectMode \<Rightarrow> nat SpectralResidual" where
  "example_detector mode = SpectralResidual_init example_series (3 / 10) 3 3 99 mode"

section \<open>Properties of the series extender\<close>

lemma py_index_neg1: "py_index n (- 1) = n - 1"
  by (simp add: py_index_def max_def) arith

lemma py_index_window: "1 \<le> look_ahead \<Longrightarrow> py_index n (- look_ahead - 2) = n - nat (look_ahead + 2)"
  by (simp add: py_index_def max_def) arith

lemma py_slice_window:
  "1 \<le> look_ahead \<Longrightarrow>
   py_slice xs (- look_ahead - 2) (- 1) = butlast (drop (length xs - nat (look_ahead + 2)) xs)"
  by (simp add: py_slice_def Let_def py_index_neg1 py_index_window butlast_conv_take)

lemma length_py_slice_window:
  "1 \<le> look_ahead \<Longrightarrow>
   length (py_slice xs (- look_ahead - 2) (- 1)) = min (length xs - 1) (nat (look_ahead + 1))"
  unfolding py_slice_window by (simp add: min_def) arith

lemma slopes_nth:
  assumes "i < length values - 1"
  shows "slopes values ! i = (values ! (length values - 1) - values ! i) / real (length values - 1 - i)"
proof -
  from assms have ne: "values \<noteq> []" by auto
  have "real_of_int (int (length values) - 1 - int i) = real (length values - 1 - i)"
    using assms by (simp add: of_nat_diff)
  with assms ne show ?thesis
    by (simp add: slopes_def Let_def nth_enumerate_eq last_conv_nth nth_butlast)
qed

lemma length_slopes: "length (slopes values) = length values - 1"
  by (simp add: slopes_def Let_def)

lemma sum_list_slopes:
  "sum_list (slopes values) =
     (\<Sum>i = 0..<length values - 1.
        (values ! (length values - 1) - values ! i) / real (length values - 1 - i))"
  by (simp add: sum_list_sum_nth length_slopes slopes_nth)

lemma predict_next_fails_iff: "(\<exists>e. predict_next values = Inl e) \<longleftrightarrow> length values < 2"
  by (auto simp: predict_next_def)

lemma predict_next_succeeds_iff: "(\<exists>p. predict_next values = Inr p) \<longleftrightarrow> 2 \<le> length values"
  by (auto simp: predict_next_def)

text \<open>
  Claim C5. For a list of at least two numbers, \<^verbatim>\<open>predict_next\<close> returns
  \<^verbatim>\<open>values[1]\<close> plus the sum, over every index \<open>i\<close> before the last, of the slope
  \<open>(values[n-1] - values[i]) / (n-1-i)\<close>; on \<open>[1.0, 2.0, 3.0]\<close> the result is exactly \<open>4.0\<close>.
\<close>

theorem predict_next_formula:
  "(2 \<le> length values \<longrightarrow>
      predict_next values =
        Inr (values ! 1 +
             (\<Sum>i = 0..<length values - 1.
                (values ! (length values - 1) - values ! i) / real (length values - 1 - i))))
   \<and> predict_next [1, 2, 3] = Inr 4"
proof
  show "2 \<le> length values \<longrightarrow>
      predict_next values =
        Inr (values ! 1 +
             (\<Sum>i = 0..<length values - 1.
                (values ! (length values - 1) - values ! i) / real (length values - 1 - i)))"
    by (simp add: predict_next_def sum_list_slopes)
  show "predict_next [1, 2, 3] = Inr 4"
    by (simp add: predict_next_def slopes_def Let_def)
qed

theorem predict_next_formula_witness:
  "2 \<le> length [1, 2, 3 :: real] \<and> predict_next [1, 2, 3] = Inr (2 + ((3 - 1) / 2 + (3 - 2) / 1))"
  using predict_next_formula [of "[1, 2, 3]"]
  by (simp add: numeral_3_eq_3 atLeast0_lessThan_Suc)

text \<open>
  Claim C6. Whenever \<^verbatim>\<open>extend_series\<close> returns, the result has the length of the input
  plus \<open>extend_num\<close>, starts with the input unchanged, and ends with \<open>extend_num\<close>
  copies of the one value \<^verbatim>\<open>predict_next\<close> computes from the last \<open>look_ahead + 2\<close>
  values without the final element. (A negative \<open>extend_num\<close> repeats the prediction
  zero times.)
\<close>

theorem extend_series_shape:
  assumes "extend_series values extend_num look_ahead = Inr r"
  shows "length r = length values + nat extend_num
       \<and> take (length values) r = values
       \<and> (\<exists>p. predict_next (butlast (drop (length values - nat (look_ahead + 2)) values)) = Inr p
              \<and> drop (length values) r = replicate (nat extend_num) p)"
proof -
  from assms have la: "1 \<le> look_ahead"
    by (auto simp: extend_series_def split: if_splits)
  from assms la obtain p where
    p: "predict_next (py_slice values (- look_ahead - 2) (- 1)) = Inr p"
    and r: "r = values @ replicate (nat extend_num) p"
    by (auto simp: extend_series_def split: if_splits sum.splits)
  from p la have "predict_next (butlast (drop (length values - nat (look_ahead + 2)) values)) = Inr p"
    by (simp add: py_slice_window)
  with r show ?thesis by simp
qed

theorem extend_series_shape_witness:
  "extend_series [1, 2, 3, 4] 2 1 = Inr [1, 2, 3, 4, 4, 4]
   \<and> length [1, 2, 3, 4, 4, 4 :: real] = length [1, 2, 3, 4 :: real] + nat 2
   \<and> take (length [1, 2, 3, 4 :: real]) [1, 2, 3, 4, 4, 4 :: real] = [1, 2, 3, 4]
   \<and> predict_next [2, 3] = Inr 4
   \<and> drop (length [1, 2, 3, 4 :: real]) [1, 2, 3, 4, 4, 4 :: real] = replicate (nat 2) 4"
proof -
  have e: "extend_series [1, 2, 3, 4] 2 1 = Inr [1, 2, 3, 4, 4, 4]"
    by (simp add: extend_series_def py_slice_def py_index_def predict_next_def slopes_def Let_def
        numeral_2_eq_2)
  have "predict_next [2, 3] = Inr 4"
    by (simp add: predict_next_def slopes_def Let_def)
  with e extend_series_shape [OF e] show ?thesis
    by (simp add: numeral_2_eq_2)
qed

text \<open>
  Claim C9. \<^verbatim>\<open>predict_next\<close> raises its \<^verbatim>\<open>ValueError\<close> exactly when fewer than two
  values are given, and raises nothing otherwise; \<^verbatim>\<open>extend_series\<close> raises its
  \<^verbatim>\<open>ValueError\<close> whenever \<open>look_ahead < 1\<close>, whatever the values. The error is the
  result of the call: nothing is tried again.
\<close>

theorem validation_errors:
  "(predict_next values = Inl (ValueError ''data should contain at least 2 numbers'')
      \<longleftrightarrow> length values < 2)
   \<and> ((\<exists>e. predict_next values = Inl e) \<longleftrightarrow> length values < 2)
   \<and> (look_ahead < 1 \<longrightarrow>
        extend_series values extend_num look_ahead =
          Inl (ValueError ''look_ahead must be at least 1''))"
  by (auto simp: predict_next_def extend_series_def)

theorem validation_errors_witness:
  "length [1 :: real] < 2
   \<and> predict_next [1] = Inl (ValueError ''data should contain at least 2 numbers'')
   \<and> (0 :: int) < 1
   \<and> extend_series [1] 5 0 = Inl (ValueError ''look_ahead must be at least 1'')"
  using validation_errors [of "[1]" 0 5]
  by simp

text \<open>
  Claim C10. With \<open>look_ahead \<ge> 1\<close>, \<^verbatim>\<open>extend_series\<close> raises the error of
  \<^verbatim>\<open>predict_next\<close> on every list of exactly two values, although \<^verbatim>\<open>predict_next\<close>
  accepts that list itself; \<^verbatim>\<open>extend_series\<close> returns exactly when the input has at
  least three values.
\<close>

theorem extend_series_needs_three:
  assumes "1 \<le> look_ahead"
  shows "(length values = 2 \<longrightarrow>
            extend_series values extend_num look_ahead =
              Inl (ValueError ''data should contain at least 2 numbers'')
            \<and> (\<exists>p. predict_next values = Inr p))
       \<and> ((\<exists>r. extend_series values extend_num look_ahead = Inr r) \<longleftrightarrow> 3 \<le> length values)"
proof -
  let ?w = "py_slice values (- look_ahead - 2) (- 1)"
  have len: "length ?w = min (length values - 1) (nat (look_ahead + 1))"
    using assms by (rule length_py_slice_window)
  have "(\<exists>r. extend_series values extend_num look_ahead = Inr r) \<longleftrightarrow> 2 \<le> length ?w"
    using assms by (auto simp: extend_series_def predict_next_def split: sum.splits)
  also have "\<dots> \<longleftrightarrow> 3 \<le> length values"
    using assms unfolding len by (simp add: min_def) arith
  finally have iff: "(\<exists>r. extend_series values extend_num look_ahead = Inr r) \<longleftrightarrow> 3 \<le> length values" .
  have "extend_series values extend_num look_ahead =
          Inl (ValueError ''data should contain at least 2 numbers'')"
    if "length values = 2"
  proof -
    from that len assms have "length ?w \<le> 1" by simp
    with assms show ?thesis
      by (simp add: extend_series_def predict_next_def)
  qed
  moreover have "\<exists>p. predict_next values = Inr p" if "length values = 2"
    using that by (simp add: predict_next_def)
  ultimately show ?thesis using iff by blast
qed

theorem extend_series_needs_three_witness:
  "(1 :: int) \<le> 5 \<and> length [1, 2 :: real] = 2
   \<and> extend_series [1, 2] 5 5 = Inl (ValueError ''data should contain at least 2 numbers'')
   \<and> predict_next [1, 2] = Inr 3"
proof -
  have "predict_next [1, 2] = Inr 3"
    by (simp add: predict_next_def slopes_def Let_def)
  with extend_series_needs_three [of 5 "[1, 2]" 5] show ?thesis
    by simp
qed

section \<open>Properties of the detector\<close>

lemma bindE_Inl: "bindE (Inl e) f = Inl e"
  by (simp add: bindE_def)

lemma bindE_Inr: "bindE (Inr x) f = f x"
  by (simp add: bindE_def)

lemma bindE_eq_Inr: "bindE m f = Inr y \<longleftrightarrow> (\<exists>x. m = Inr x \<and> f x = Inr y)"
  by (cases m) (simp_all add: bindE_def)

lemma np_broadcast_length:
  "np_broadcast f a b = Inr c \<Longrightarrow> length c = (if length a = 1 then length b else length a)"
  by (auto simp: np_broadcast_def split: if_splits)

lemma np_broadcast_same:
  "length a = length b \<Longrightarrow> np_broadcast f a b = Inr (map2 f a b)"
  by (simp add: np_broadcast_def)

lemma length_np_put: "length (np_put a index v) = length a"
  unfolding np_put_def by (induction index arbitrary: a) simp_all

lemma np_put_nth:
  "i < length a \<Longrightarrow> np_put a index v ! i = (if i \<in> set index then v else a ! i)"
  unfolding np_put_def
  by (induction index arbitrary: a) (auto simp: nth_list_update)

lemma set_np_where: "set (np_where p a) = {i. i < length a \<and> p (a ! i)}"
  by (auto simp: np_where_def)

lemma np_put_where_nth:
  "i < length a \<Longrightarrow> np_put a (np_where p a) v ! i = (if p (a ! i) then v else a ! i)"
  by (simp add: np_put_nth set_np_where)

text \<open>
  With a positive \<open>EPS\<close> every divisor of the two pipelines is at least \<open>EPS\<close>: the
  quotients of the model are quotients of real numbers by positive numbers.
\<close>

lemma clamped_at_least_EPS:
  assumes "x \<in> set (np_put a (np_where (\<lambda>m. m \<le> e) a) e)"
  shows "(e :: real) \<le> x"
proof -
  from assms obtain i where "i < length a" and "x = np_put a (np_where (\<lambda>m. m \<le> e) a) e ! i"
    by (auto simp: in_set_conv_nth length_np_put)
  then show ?thesis by (auto simp: np_put_where_nth)
qed

lemma np_assign_length: "np_assign n x = Inr y \<Longrightarrow> length y = n"
  by (auto simp: np_assign_def split: if_splits)

lemma np_assign_same: "length x = n \<Longrightarrow> np_assign n x = Inr x"
  by (simp add: np_assign_def)

lemma set_column_eq_Inr: "set_column n x = Inr y \<longleftrightarrow> length x = n \<and> y = x"
  by (auto simp: set_column_def)

lemma length_dft: "length (dft s a) = length a"
  by (simp add: dft_def Let_def)

lemma np_fft_fft_length: "np_fft_fft a = Inr c \<Longrightarrow> length c = length a"
  by (auto simp: np_fft_fft_def length_dft split: if_splits)

lemma np_fft_ifft_length: "np_fft_ifft a = Inr c \<Longrightarrow> length c = length a"
  by (auto simp: np_fft_ifft_def length_dft split: if_splits)

lemma np_fft_fft_succeeds: "a \<noteq> [] \<Longrightarrow> np_fft_fft a = Inr (dft (- 1) a)"
  by (simp add: np_fft_fft_def)

lemma np_fft_ifft_succeeds:
  "a \<noteq> [] \<Longrightarrow> np_fft_ifft a = Inr (map (\<lambda>c. c / of_nat (length a)) (dft 1 a))"
  by (simp add: np_fft_ifft_def)

lemma np_fft_ifft_by_length:
  "np_fft_ifft a =
     (if length a = 0 then Inl (ValueError ''Invalid number of FFT data points (0) specified.'')
      else Inr (map (\<lambda>c. c / of_nat (length a)) (dft 1 a)))"
  by (simp add: np_fft_ifft_def)

lemma dft_eq_Nil: "dft s a = [] \<longleftrightarrow> a = []"
  by (simp add: dft_def Let_def)

lemma np_clip_unit: "0 \<le> np_clip x 0 1 \<and> np_clip x 0 1 \<le> 1"
  by (simp add: np_clip_def)

lemma spectral_residual_transform_length:
  assumes "spectral_residual_transform env w vals = Inr m"
  shows "length m = length vals"
  using assms
  by (auto simp: spectral_residual_transform_def bindE_eq_Inr Let_def length_np_put
      dest!: np_fft_fft_length np_fft_ifft_length np_assign_length)

lemma generate_spectral_score_length:
  assumes "generate_spectral_score env w mags = Inr scores" and "length mags \<noteq> 1"
  shows "length scores = length mags"
  using assms
  by (auto simp: generate_spectral_score_def bindE_eq_Inr Let_def length_np_put
      dest!: np_broadcast_length split: if_splits)

lemma generate_spectral_score_unit:
  assumes "generate_spectral_score env w mags = Inr scores" and "s \<in> set scores"
  shows "0 \<le> s \<and> s \<le> 1"
  using assms
  by (auto simp: generate_spectral_score_def bindE_eq_Inr Let_def np_clip_def)


lemma spectral_residual_transform_succeeds:
  assumes "vals \<noteq> []" and "average_filter_shape env"
  shows "\<exists>m. spectral_residual_transform env w vals = Inr m"
  using assms
  by (simp add: spectral_residual_transform_def average_filter_shape_def np_fft_fft_succeeds
      Let_def length_np_put length_dft np_broadcast_same np_assign_same bindE_Inr
      np_fft_ifft_by_length dft_eq_Nil)

lemma generate_spectral_score_succeeds:
  assumes "average_filter_shape env"
  shows "\<exists>scores. generate_spectral_score env w mags = Inr scores"
  using assms
  by (simp add: generate_spectral_score_def average_filter_shape_def
      Let_def length_np_put np_broadcast_same bindE_Inr)

lemma new_anomaly_frame_eq_Inr:
  "new_anomaly_frame series th mags scores = Inr frame \<longleftrightarrow>
     length scores = length series \<and> length mags = length series \<and>
     frame = \<lparr>AnomalyId = [0..<length scores], Timestamp = map fst series,
              Value = map snd series, Mag = mags, AnomalyScore = scores,
              IsAnomaly = map (\<lambda>s. s \<ge> th) scores,
              ExpectedValue = None, LowerBoundary = None, UpperBoundary = None\<rparr>"
  by (auto simp: new_anomaly_frame_def)

lemma margin_pass_result:
  assumes "margin_pass env self frame = Inr frame'"
  shows "\<exists>expected lower upper.
           calculate_expected_value env (sr_values self)
             (map fst (filter snd (zip (AnomalyId frame) (IsAnomaly frame)))) = Inr expected
         \<and> length expected = length (AnomalyId frame)
         \<and> length lower = length (AnomalyId frame)
         \<and> length upper = length (AnomalyId frame)
         \<and> length (calculate_anomaly_scores env (Value frame) expected
                (calculate_bounary_unit_entire env (sr_values self) (IsAnomaly frame))
                (IsAnomaly frame)) = length (AnomalyId frame)
         \<and> frame' = frame\<lparr>
              AnomalyScore := calculate_anomaly_scores env (Value frame) expected
                (calculate_bounary_unit_entire env (sr_values self) (IsAnomaly frame))
                (IsAnomaly frame),
              IsAnomaly := map2 (\<and>)
                 (map2 (\<and>) (IsAnomaly frame)
                    (map2 np_less_equal lower (map complex_of_real (Value frame))))
                 (map2 np_less_equal (map complex_of_real (Value frame)) upper),
              ExpectedValue := Some expected,
              LowerBoundary := Some lower,
              UpperBoundary := Some upper\<rparr>"
  using assms
  by (auto simp: margin_pass_def bindE_eq_Inr Let_def set_column_eq_Inr)

lemma SpectralResidual_detect_stages:
  assumes "SpectralResidual_detect env self = Inr frame"
  shows "\<exists>ext m scores frame0.
           extend_series (sr_values self) 5 5 = Inr ext
         \<and> spectral_residual_transform env (sr_mag_window self) ext = Inr m
         \<and> generate_spectral_score env (sr_score_window self) (take (length (sr_series self)) m)
              = Inr scores
         \<and> new_anomaly_frame (sr_series self) (sr_threshold self)
              (take (length (sr_series self)) m) scores = Inr frame0
         \<and> (if sr_detect_mode self = anomaly_and_margin
             then margin_pass env self frame0 = Inr frame else frame = frame0)"
  using assms
  by (auto simp: SpectralResidual_detect_def bindE_eq_Inr Let_def split: if_splits)

lemma SpectralResidual_detect_shape:
  assumes "SpectralResidual_detect env self = Inr frame"
  shows "AnomalyId frame = [0..<length (sr_series self)]
       \<and> Timestamp frame = map fst (sr_series self)
       \<and> Value frame = map snd (sr_series self)
       \<and> length (Mag frame) = length (sr_series self)
       \<and> length (AnomalyScore frame) = length (sr_series self)
       \<and> length (IsAnomaly frame) = length (sr_series self)"
proof -
  from SpectralResidual_detect_stages [OF assms] obtain ext m scores frame0 where
    f0: "new_anomaly_frame (sr_series self) (sr_threshold self)
           (take (length (sr_series self)) m) scores = Inr frame0"
    and fin: "if sr_detect_mode self = anomaly_and_margin
              then margin_pass env self frame0 = Inr frame else frame = frame0"
    by blast
  from f0 have shape0: "AnomalyId frame0 = [0..<length (sr_series self)]
       \<and> Timestamp frame0 = map fst (sr_series self)
       \<and> Value frame0 = map snd (sr_series self)
       \<and> length (Mag frame0) = length (sr_series self)
       \<and> length (AnomalyScore frame0) = length (sr_series self)
       \<and> length (IsAnomaly frame0) = length (sr_series self)"
    by (auto simp: new_anomaly_frame_eq_Inr)
  show ?thesis
  proof (cases "sr_detect_mode self = anomaly_and_margin")
    case False
    with fin shape0 show ?thesis by simp
  next
    case True
    with fin have "margin_pass env self frame0 = Inr frame" by simp
    from margin_pass_result [OF this] shape0 show ?thesis
      by auto
  qed
qed

lemma well_shaped_example: "well_shaped example_collaborators"
  by (simp add: well_shaped_def average_filter_shape_def example_collaborators_def
      moving_average_def)

lemma boundary_scores_bounded_example: "boundary_scores_bounded example_collaborators"
  by (auto simp: boundary_scores_bounded_def example_collaborators_def)

lemma extend_series_result:
  assumes "extend_series vals extend_num look_ahead = Inr r"
  shows "1 \<le> look_ahead
       \<and> (\<exists>p. predict_next (py_slice vals (- look_ahead - 2) (- 1)) = Inr p
              \<and> r = vals @ replicate (nat extend_num) p)"
  using assms by (auto simp: extend_series_def split: if_splits sum.splits)

lemma extend_series_succeeds_iff:
  assumes "1 \<le> look_ahead"
  shows "(\<exists>r. extend_series vals extend_num look_ahead = Inr r) \<longleftrightarrow> 3 \<le> length vals"
proof -
  let ?w = "py_slice vals (- look_ahead - 2) (- 1)"
  have len: "length ?w = min (length vals - 1) (nat (look_ahead + 1))"
    using assms by (rule length_py_slice_window)
  have "(\<exists>r. extend_series vals extend_num look_ahead = Inr r) \<longleftrightarrow> 2 \<le> length ?w"
    using assms by (auto simp: extend_series_def predict_next_def split: sum.splits)
  also have "\<dots> \<longleftrightarrow> 3 \<le> length vals"
    using assms unfolding len by (simp add: min_def) arith
  finally show ?thesis .
qed

lemma extend_series_length:
  assumes "extend_series vals 5 5 = Inr ext"
  shows "length ext = length vals + 5 \<and> 3 \<le> length vals"
proof -
  from extend_series_result [OF assms] have "length ext = length vals + 5" by auto
  moreover from assms extend_series_succeeds_iff [of 5 vals 5] have "3 \<le> length vals"
    by auto
  ultimately show ?thesis ..
qed

lemma calculate_expected_value_succeeds:
  assumes "deanomaly_entire env vals idx \<noteq> []"
  shows "\<exists>exps. calculate_expected_value env vals idx = Inr exps
            \<and> length exps = length (deanomaly_entire env vals idx)"
  using assms
  by (simp add: calculate_expected_value_def Let_def np_fft_fft_succeeds bindE_Inr
      np_fft_ifft_by_length filtered_spectrum_def band_filter_def length_dft dft_eq_Nil)

lemma well_shaped_lengths:
  assumes "well_shaped env"
  shows "length (average_filter env xs n) = length xs"
    and "length (deanomaly_entire env vs idx) = length vs"
    and "length (calculate_bounary_unit_entire env vs fl) = length vs"
    and "length (calculate_anomaly_scores env vs ev us fl) = length vs"
  using assms by (simp_all add: well_shaped_def average_filter_shape_def)

lemma margin_pass_succeeds:
  assumes ws: "well_shaped env"
    and vals: "length (sr_values self) = length (AnomalyId frame)"
    and vcol: "length (Value frame) = length (AnomalyId frame)"
    and ne: "AnomalyId frame \<noteq> []"
  shows "\<exists>frame'. margin_pass env self frame = Inr frame'"
proof -
  let ?idx = "map fst (filter snd (zip (AnomalyId frame) (IsAnomaly frame)))"
  let ?units = "calculate_bounary_unit_entire env (sr_values self) (IsAnomaly frame)"
  have "length (deanomaly_entire env (sr_values self) ?idx) = length (AnomalyId frame)"
    using well_shaped_lengths(2) [OF ws] vals by simp
  moreover from this ne have "deanomaly_entire env (sr_values self) ?idx \<noteq> []"
    by auto
  ultimately obtain exps where
    e: "calculate_expected_value env (sr_values self) ?idx = Inr exps"
    and le: "length exps = length (AnomalyId frame)"
    using calculate_expected_value_succeeds [of env "sr_values self" ?idx] by auto
  have lu: "length ?units = length (AnomalyId frame)"
    using well_shaped_lengths(3) [OF ws] vals by simp
  have ls: "length (calculate_anomaly_scores env (Value frame) exps ?units (IsAnomaly frame))
              = length (AnomalyId frame)"
    using well_shaped_lengths(4) [OF ws] vcol by simp
  show ?thesis
    unfolding margin_pass_def Let_def e bindE_Inr
    by (simp add: set_column_def le ls lu np_broadcast_same bindE_Inr)
qed

lemma extend_series_succeeds:
  assumes "3 \<le> length vals"
  shows "\<exists>ext. extend_series vals 5 5 = Inr ext \<and> length ext = length vals + 5"
proof -
  from assms extend_series_succeeds_iff [of 5 vals 5] obtain ext where
    e: "extend_series vals 5 5 = Inr ext" by auto
  from extend_series_length [OF e] e show ?thesis by blast
qed

lemma SpectralResidual_detect_succeeds:
  assumes ws: "well_shaped env"
    and vals: "sr_values self = map snd (sr_series self)"
    and n: "3 \<le> length (sr_series self)"
  shows "\<exists>frame. SpectralResidual_detect env self = Inr frame"
proof -
  from ws have af: "average_filter_shape env" by (simp add: well_shaped_def)
  from n vals have "3 \<le> length (sr_values self)" by simp
  from extend_series_succeeds [OF this] vals obtain ext where
    ext: "extend_series (sr_values self) 5 5 = Inr ext"
    and lext: "length ext = length (sr_series self) + 5" by auto
  from lext have "ext \<noteq> []" by auto
  from spectral_residual_transform_succeeds [OF this af] obtain m where
    m: "spectral_residual_transform env (sr_mag_window self) ext = Inr m" by blast
  from spectral_residual_transform_length [OF m] lext
  have lm: "length m = length (sr_series self) + 5" by simp
  let ?mags = "take (length (sr_series self)) m"
  from lm have lmags: "length ?mags = length (sr_series self)" by simp
  from generate_spectral_score_succeeds [OF af] obtain scores where
    sc: "generate_spectral_score env (sr_score_window self) ?mags = Inr scores" by blast
  from lmags n have "length ?mags \<noteq> 1" by linarith
  from generate_spectral_score_length [OF sc this] lmags
  have lsc: "length scores = length (sr_series self)" by simp
  define frame0 :: "'a anomaly_frame" where
    "frame0 = \<lparr>AnomalyId = [0..<length scores], Timestamp = map fst (sr_series self),
              Value = map snd (sr_series self), Mag = ?mags, AnomalyScore = scores,
              IsAnomaly = map (\<lambda>s. s \<ge> sr_threshold self) scores,
              ExpectedValue = None, LowerBoundary = None, UpperBoundary = None\<rparr>"
  have f0: "new_anomaly_frame (sr_series self) (sr_threshold self) ?mags scores = Inr frame0"
    unfolding new_anomaly_frame_eq_Inr frame0_def using lsc lmags by simp
  have step: "SpectralResidual_detect env self =
        (if sr_detect_mode self = anomaly_and_margin then margin_pass env self frame0
         else Inr frame0)"
    unfolding SpectralResidual_detect_def ext bindE_Inr m Let_def sc f0 ..
  show ?thesis
  proof (cases "sr_detect_mode self = anomaly_and_margin")
    case False
    with step show ?thesis by simp
  next
    case True
    have "length (sr_values self) = length (AnomalyId frame0)"
      using vals lsc by (simp add: frame0_def)
    moreover have "length (Value frame0) = length (AnomalyId frame0)"
      using lsc by (simp add: frame0_def)
    moreover have "AnomalyId frame0 \<noteq> []"
      using n lsc by (auto simp: frame0_def)
    ultimately obtain frame' where "margin_pass env self frame0 = Inr frame'"
      using margin_pass_succeeds [OF ws, of self frame0] by blast
    with True step show ?thesis by simp
  qed
qed

lemma detect_init:
  "fst (detect env (SpectralResidual_init series th mw sw se mode)) =
     SpectralResidual_detect env (SpectralResidual_init series th mw sw se mode)"
  by (simp add: detect_def SpectralResidual_init_def split: sum.splits)

lemma not_isl_conv: "\<not> isl x \<longleftrightarrow> x = Inr (projr x)"
  by (cases x) simp_all

lemma example_detector_succeeds:
  "\<not> isl (SpectralResidual_detect example_collaborators (example_detector mode))"
proof -
  have "sr_values (example_detector mode) = map snd (sr_series (example_detector mode))"
    by (simp add: example_detector_def SpectralResidual_init_def)
  moreover have "3 \<le> length (sr_series (example_detector mode))"
    by (simp add: example_detector_def SpectralResidual_init_def example_series_def)
  ultimately obtain frame where
    "SpectralResidual_detect example_collaborators (example_detector mode) = Inr frame"
    using SpectralResidual_detect_succeeds [OF well_shaped_example] by blast
  then show ?thesis by simp
qed

text \<open>
  Claim C1. Every score \<^verbatim>\<open>generate_spectral_score\<close> returns lies in \<open>[0, 1]\<close>, and so
  does every score of a report the detection pass produces: in \<^verbatim>\<open>anomaly_only\<close> mode
  with no condition on the collaborators, in \<^verbatim>\<open>anomaly_and_margin\<close> mode, where the
  scores of the report are the ones the boundary calculator returns, under that
  calculator's contract.
\<close>

theorem scores_in_unit_interval:
  "(generate_spectral_score env w mags = Inr scores \<longrightarrow> (\<forall>s \<in> set scores. 0 \<le> s \<and> s \<le> 1))
   \<and> (SpectralResidual_detect env self = Inr frame
        \<and> (sr_detect_mode self = anomaly_and_margin \<longrightarrow> boundary_scores_bounded env)
      \<longrightarrow> (\<forall>s \<in> set (AnomalyScore frame). 0 \<le> s \<and> s \<le> 1))"
proof (rule conjI)
  show "generate_spectral_score env w mags = Inr scores \<longrightarrow>
          (\<forall>s \<in> set scores. 0 \<le> s \<and> s \<le> 1)"
    by (blast dest: generate_spectral_score_unit)
next
  show "SpectralResidual_detect env self = Inr frame
        \<and> (sr_detect_mode self = anomaly_and_margin \<longrightarrow> boundary_scores_bounded env)
      \<longrightarrow> (\<forall>s \<in> set (AnomalyScore frame). 0 \<le> s \<and> s \<le> 1)"
  proof (rule impI, rule ballI)
  fix s
  assume a: "SpectralResidual_detect env self = Inr frame
        \<and> (sr_detect_mode self = anomaly_and_margin \<longrightarrow> boundary_scores_bounded env)"
    and s: "s \<in> set (AnomalyScore frame)"
  from a SpectralResidual_detect_stages [of env self frame] obtain m scores frame0 where
    sc: "generate_spectral_score env (sr_score_window self) (take (length (sr_series self)) m)
           = Inr scores"
    and f0: "new_anomaly_frame (sr_series self) (sr_threshold self)
           (take (length (sr_series self)) m) scores = Inr frame0"
    and fin: "if sr_detect_mode self = anomaly_and_margin
              then margin_pass env self frame0 = Inr frame else frame = frame0"
    by blast
  show "0 \<le> s \<and> s \<le> 1"
  proof (cases "sr_detect_mode self = anomaly_and_margin")
    case False
    with fin f0 have "AnomalyScore frame = scores"
      by (auto simp: new_anomaly_frame_eq_Inr)
    with s sc show ?thesis by (auto dest: generate_spectral_score_unit)
  next
    case True
    with fin have "margin_pass env self frame0 = Inr frame" by simp
    from margin_pass_result [OF this] obtain expected where
      "AnomalyScore frame = calculate_anomaly_scores env (Value frame0) expected
          (calculate_bounary_unit_entire env (sr_values self) (IsAnomaly frame0))
          (IsAnomaly frame0)"
      by auto
    moreover from a True have "boundary_scores_bounded env" by simp
    ultimately show ?thesis using s
      unfolding boundary_scores_bounded_def by metis
  qed
  qed
qed

theorem scores_in_unit_interval_witness:
  "\<not> isl (generate_spectral_score example_collaborators 3 [1, 2, 4])
   \<and> 0 \<le> projr (generate_spectral_score example_collaborators 3 [1, 2, 4]) ! 0
   \<and> projr (generate_spectral_score example_collaborators 3 [1, 2, 4]) ! 0 \<le> 1
   \<and> \<not> isl (SpectralResidual_detect example_collaborators (example_detector anomaly_and_margin))
   \<and> sr_detect_mode (example_detector anomaly_and_margin) = anomaly_and_margin
   \<and> boundary_scores_bounded example_collaborators
   \<and> 0 \<le> AnomalyScore (projr (SpectralResidual_detect example_collaborators
              (example_detector anomaly_and_margin))) ! 0
   \<and> AnomalyScore (projr (SpectralResidual_detect example_collaborators
              (example_detector anomaly_and_margin))) ! 0 \<le> 1"
proof -
  let ?g = "generate_spectral_score example_collaborators 3 [1, 2, 4]"
  let ?d = "example_detector anomaly_and_margin"
  let ?r = "SpectralResidual_detect example_collaborators ?d"
  have "average_filter_shape example_collaborators"
    using well_shaped_example by (simp add: well_shaped_def)
  from generate_spectral_score_succeeds [OF this, of 3 "[1, 2, 4]"]
  have g: "?g = Inr (projr ?g)" by auto
  from generate_spectral_score_length [OF g] have "0 < length (projr ?g)" by simp
  then have g0: "projr ?g ! 0 \<in> set (projr ?g)" by simp
  have r: "?r = Inr (projr ?r)"
    using example_detector_succeeds [of anomaly_and_margin] by (simp add: not_isl_conv)
  have mode: "sr_detect_mode ?d = anomaly_and_margin"
    by (simp add: example_detector_def SpectralResidual_init_def)
  from SpectralResidual_detect_shape [OF r]
  have "0 < length (AnomalyScore (projr ?r))"
    by (simp add: example_detector_def SpectralResidual_init_def example_series_def)
  then have r0: "AnomalyScore (projr ?r) ! 0 \<in> set (AnomalyScore (projr ?r))" by simp
  from scores_in_unit_interval
    [of example_collaborators 3 "[1, 2, 4]" "projr ?g" ?d "projr ?r"]
    g g0 r r0 mode boundary_scores_bounded_example
  show ?thesis by (metis not_isl_conv)
qed

text \<open>
  Claim C2, amended. A detector built on a series of \<open>N\<close> points produces a report only
  if \<open>N \<ge> 3\<close>; every report it produces has exactly \<open>N\<close> records in the order of the
  input, with the ids \<open>0, \<dots>, N-1\<close>, and its magnitudes are the first \<open>N\<close> of the
  \<open>N + 5\<close> values of the transform of the extended series. For \<open>N \<ge> 3\<close> and
  collaborators that keep the shape of their input, a report is produced.
\<close>

theorem report_shape:
  "(fst (detect env (SpectralResidual_init series th mw sw se mode)) = Inr frame \<longrightarrow>
      3 \<le> length series
      \<and> AnomalyId frame = [0..<length series]
      \<and> Timestamp frame = map fst series
      \<and> Value frame = map snd series
      \<and> length (Mag frame) = length series
      \<and> length (AnomalyScore frame) = length series
      \<and> length (IsAnomaly frame) = length series
      \<and> (\<exists>ext m. extend_series (map snd series) 5 5 = Inr ext
             \<and> length ext = length series + 5
             \<and> spectral_residual_transform env mw ext = Inr m
             \<and> length m = length series + 5
             \<and> Mag frame = take (length series) m))
   \<and> (3 \<le> length series \<and> well_shaped env \<longrightarrow>
        (\<exists>frame. fst (detect env (SpectralResidual_init series th mw sw se mode)) = Inr frame))"
proof (rule conjI)
  let ?self = "SpectralResidual_init series th mw sw se mode"
  have sel: "sr_series ?self = series" "sr_values ?self = map snd series"
    "sr_mag_window ?self = mw"
    by (simp_all add: SpectralResidual_init_def)
  show "3 \<le> length series \<and> well_shaped env \<longrightarrow>
        (\<exists>frame. fst (detect env ?self) = Inr frame)"
    using SpectralResidual_detect_succeeds [of env ?self] sel
    by (simp add: detect_init)
  show "fst (detect env ?self) = Inr frame \<longrightarrow>
      3 \<le> length series
      \<and> AnomalyId frame = [0..<length series]
      \<and> Timestamp frame = map fst series
      \<and> Value frame = map snd series
      \<and> length (Mag frame) = length series
      \<and> length (AnomalyScore frame) = length series
      \<and> length (IsAnomaly frame) = length series
      \<and> (\<exists>ext m. extend_series (map snd series) 5 5 = Inr ext
             \<and> length ext = length series + 5
             \<and> spectral_residual_transform env mw ext = Inr m
             \<and> length m = length series + 5
             \<and> Mag frame = take (length series) m)"
  proof
    assume "fst (detect env ?self) = Inr frame"
    then have d: "SpectralResidual_detect env ?self = Inr frame"
      by (simp add: detect_init)
    from SpectralResidual_detect_shape [OF d] sel
    have shape: "AnomalyId frame = [0..<length series]
      \<and> Timestamp frame = map fst series
      \<and> Value frame = map snd series
      \<and> length (Mag frame) = length series
      \<and> length (AnomalyScore frame) = length series
      \<and> length (IsAnomaly frame) = length series" by simp
    from SpectralResidual_detect_stages [OF d] sel obtain ext m scores frame0 where
      ext: "extend_series (map snd series) 5 5 = Inr ext"
      and m: "spectral_residual_transform env mw ext = Inr m"
      and f0: "new_anomaly_frame series (sr_threshold ?self) (take (length series) m) scores
                 = Inr frame0"
      and fin: "if sr_detect_mode ?self = anomaly_and_margin
                then margin_pass env ?self frame0 = Inr frame else frame = frame0"
      by auto
    from extend_series_length [OF ext]
    have lext: "length ext = length series + 5" and n: "3 \<le> length series" by simp_all
    from spectral_residual_transform_length [OF m] lext
    have lm: "length m = length series + 5" by simp
    from f0 have "Mag frame0 = take (length series) m"
      by (auto simp: new_anomaly_frame_eq_Inr)
    moreover have "Mag frame = Mag frame0"
    proof (cases "sr_detect_mode ?self = anomaly_and_margin")
      case False
      with fin show ?thesis by simp
    next
      case True
      with fin have "margin_pass env ?self frame0 = Inr frame" by simp
      from margin_pass_result [OF this] show ?thesis by auto
    qed
    ultimately have "Mag frame = take (length series) m" by simp
    with shape n ext lext m lm show "3 \<le> length series
      \<and> AnomalyId frame = [0..<length series]
      \<and> Timestamp frame = map fst series
      \<and> Value frame = map snd series
      \<and> length (Mag frame) = length series
      \<and> length (AnomalyScore frame) = length series
      \<and> length (IsAnomaly frame) = length series
      \<and> (\<exists>ext m. extend_series (map snd series) 5 5 = Inr ext
             \<and> length ext = length series + 5
             \<and> spectral_residual_transform env mw ext = Inr m
             \<and> length m = length series + 5
             \<and> Mag frame = take (length series) m)"
      by blast
  qed
qed

text \<open>
  Claim C2 as stated fails on a non-empty series of two points: \<^verbatim>\<open>detect\<close> raises the
  \<^verbatim>\<open>ValueError\<close> of \<^verbatim>\<open>predict_next\<close> and produces no report.
\<close>

theorem short_series_counterexample:
  "fst (detect example_collaborators
          (SpectralResidual_init [(0 :: nat, 1), (1, 2)] (3 / 10) 3 3 99 anomaly_only))
     = Inl (ValueError ''data should contain at least 2 numbers'')"
proof -
  have "extend_series [1, 2] 5 5 = Inl (ValueError ''data should contain at least 2 numbers'')"
    by (simp add: extend_series_def py_slice_def py_index_def predict_next_def)
  moreover have "sr_values (SpectralResidual_init [(0 :: nat, 1), (1, 2)] (3 / 10) 3 3 99
      anomaly_only) = [1, 2]"
    by (simp add: SpectralResidual_init_def)
  ultimately show ?thesis
    unfolding detect_init SpectralResidual_detect_def by (simp add: bindE_Inl)
qed

theorem report_shape_witness:
  "3 \<le> length example_series \<and> well_shaped example_collaborators
   \<and> \<not> isl (fst (detect example_collaborators (example_detector anomaly_and_margin)))
   \<and> AnomalyId (projr (fst (detect example_collaborators (example_detector anomaly_and_margin))))
       = [0, 1, 2]
   \<and> Timestamp (projr (fst (detect example_collaborators (example_detector anomaly_and_margin))))
       = [0, 1, 2]
   \<and> Value (projr (fst (detect example_collaborators (example_detector anomaly_and_margin))))
       = [1, 2, 4]
   \<and> length (AnomalyScore (projr (fst (detect example_collaborators
        (example_detector anomaly_and_margin))))) = 3"
proof -
  let ?r = "fst (detect example_collaborators (example_detector anomaly_and_margin))"
  have n: "3 \<le> length example_series" by (simp add: example_series_def)
  note rs = report_shape [of example_collaborators example_series "3 / 10" 3 3 99
      anomaly_and_margin "projr ?r", folded example_detector_def]
  from rs n well_shaped_example have r: "?r = Inr (projr ?r)" by auto
  with rs have "AnomalyId (projr ?r) = [0..<length example_series]
      \<and> Timestamp (projr ?r) = map fst example_series
      \<and> Value (projr ?r) = map snd example_series
      \<and> length (AnomalyScore (projr ?r)) = length example_series" by blast
  moreover have "[0..<length example_series] = [0, 1, 2]"
    by (simp add: example_series_def upt_rec)
  moreover have "map fst example_series = [0, 1, 2]" "map snd example_series = [1, 2, 4]"
    "length example_series = 3"
    by (simp_all add: example_series_def)
  ultimately show ?thesis using n well_shaped_example r
    by (simp add: not_isl_conv)
qed

text \<open>
  Claim C3. On an instance with an empty cache, \<^verbatim>\<open>detect\<close> returns the frame the
  detection pass computes and stores it; on an instance with a cached frame it returns that
  frame and leaves the instance unchanged, whatever the collaborators are, so nothing is
  computed again; and after any call that returned a frame every later call returns the
  same frame.
\<close>

theorem detect_cached:
  "(sr_anomaly_frame self = None \<and> SpectralResidual_detect env self = Inr frame \<longrightarrow>
      detect env self = (Inr frame, self\<lparr>sr_anomaly_frame := Some frame\<rparr>))
   \<and> (sr_anomaly_frame self = Some frame \<longrightarrow> (\<forall>env'. detect env' self = (Inr frame, self)))
   \<and> (detect env self = (Inr frame, self') \<longrightarrow>
        sr_anomaly_frame self' = Some frame
        \<and> (\<forall>env'. detect env' self' = (Inr frame, self')))"
proof (intro conjI)
  show "sr_anomaly_frame self = None \<and> SpectralResidual_detect env self = Inr frame \<longrightarrow>
      detect env self = (Inr frame, self\<lparr>sr_anomaly_frame := Some frame\<rparr>)"
    by (simp add: detect_def)
  show "sr_anomaly_frame self = Some frame \<longrightarrow> (\<forall>env'. detect env' self = (Inr frame, self))"
    by (simp add: detect_def)
  show "detect env self = (Inr frame, self') \<longrightarrow>
        sr_anomaly_frame self' = Some frame
        \<and> (\<forall>env'. detect env' self' = (Inr frame, self'))"
    by (auto simp: detect_def split: option.splits sum.splits)
qed

theorem detect_cached_witness:
  "\<not> isl (fst (detect example_collaborators (example_detector anomaly_only)))
   \<and> sr_anomaly_frame (example_detector anomaly_only) = None
   \<and> sr_anomaly_frame (snd (detect example_collaborators (example_detector anomaly_only)))
       = Some (projr (fst (detect example_collaborators (example_detector anomaly_only))))
   \<and> detect example_collaborators
        (snd (detect example_collaborators (example_detector anomaly_only)))
       = (fst (detect example_collaborators (example_detector anomaly_only)),
          snd (detect example_collaborators (example_detector anomaly_only)))"
proof -
  let ?d = "example_detector anomaly_only"
  let ?c = "detect example_collaborators ?d"
  have "fst ?c = SpectralResidual_detect example_collaborators ?d"
    unfolding example_detector_def by (rule detect_init)
  with example_detector_succeeds [of anomaly_only] have r: "fst ?c = Inr (projr (fst ?c))"
    by (simp add: not_isl_conv)
  then have c: "?c = (Inr (projr (fst ?c)), snd ?c)"
    by (metis prod.collapse)
  have none: "sr_anomaly_frame ?d = None"
    by (simp add: example_detector_def SpectralResidual_init_def)
  from detect_cached [of ?d example_collaborators "projr (fst ?c)" "snd ?c"] c
  have "sr_anomaly_frame (snd ?c) = Some (projr (fst ?c))"
    and "detect example_collaborators (snd ?c) = (Inr (projr (fst ?c)), snd ?c)"
    by blast+
  with r none show ?thesis by (simp add: not_isl_conv)
qed

text \<open>
  Claim C4. In \<^verbatim>\<open>anomaly_and_margin\<close> mode the final flag of a record is the conjunction
  of the score test of the first pass (\<open>score \<ge> threshold\<close>, on the scores
  \<^verbatim>\<open>generate_spectral_score\<close> gives for the report's magnitudes) and of the two
  boundary tests \<open>lower \<le> value\<close> and \<open>value \<le> upper\<close>; so the final anomaly indices
  are among the indices the score test flags.
\<close>

theorem margin_narrows:
  assumes "SpectralResidual_detect env self = Inr frame"
    and "sr_detect_mode self = anomaly_and_margin"
  shows "\<exists>scores lower upper.
           generate_spectral_score env (sr_score_window self) (Mag frame) = Inr scores
         \<and> LowerBoundary frame = Some lower \<and> UpperBoundary frame = Some upper
         \<and> length scores = length (IsAnomaly frame)
         \<and> length lower = length (IsAnomaly frame)
         \<and> length upper = length (IsAnomaly frame)
         \<and> length (Value frame) = length (IsAnomaly frame)
         \<and> (\<forall>i < length (IsAnomaly frame).
               IsAnomaly frame ! i =
                 (sr_threshold self \<le> scores ! i
                  \<and> np_less_equal (lower ! i) (complex_of_real (Value frame ! i))
                  \<and> np_less_equal (complex_of_real (Value frame ! i)) (upper ! i)))
         \<and> {i. i < length (IsAnomaly frame) \<and> IsAnomaly frame ! i}
              \<subseteq> {i. i < length scores \<and> sr_threshold self \<le> scores ! i}"
proof -
  let ?n = "length (sr_series self)"
  from SpectralResidual_detect_stages [OF assms(1)] assms(2) obtain m scores frame0 where
    sc: "generate_spectral_score env (sr_score_window self) (take ?n m) = Inr scores"
    and f0: "new_anomaly_frame (sr_series self) (sr_threshold self) (take ?n m) scores
               = Inr frame0"
    and mp: "margin_pass env self frame0 = Inr frame"
    by auto
  from f0 have ls: "length scores = ?n"
    and id0: "AnomalyId frame0 = [0..<?n]"
    and mag0: "Mag frame0 = take ?n m"
    and v0: "Value frame0 = map snd (sr_series self)"
    and a0: "IsAnomaly frame0 = map (\<lambda>s. sr_threshold self \<le> s) scores"
    by (auto simp: new_anomaly_frame_eq_Inr)
  from margin_pass_result [OF mp] id0 obtain lower upper where
    ll: "length lower = ?n" and lu: "length upper = ?n"
    and lb: "LowerBoundary frame = Some lower" and ub: "UpperBoundary frame = Some upper"
    and mag: "Mag frame = Mag frame0" and v: "Value frame = Value frame0"
    and a: "IsAnomaly frame = map2 (\<and>)
                 (map2 (\<and>) (IsAnomaly frame0)
                    (map2 np_less_equal lower (map complex_of_real (Value frame0))))
                 (map2 np_less_equal (map complex_of_real (Value frame0)) upper)"
    by auto
  from a a0 v0 ls ll lu have la: "length (IsAnomaly frame) = ?n" by simp
  have nth: "IsAnomaly frame ! i =
                 (sr_threshold self \<le> scores ! i
                  \<and> np_less_equal (lower ! i) (complex_of_real (Value frame ! i))
                  \<and> np_less_equal (complex_of_real (Value frame ! i)) (upper ! i))"
    if "i < ?n" for i
    using that ls ll lu unfolding a a0 v v0 by simp
  have "{i. i < length (IsAnomaly frame) \<and> IsAnomaly frame ! i}
              \<subseteq> {i. i < length scores \<and> sr_threshold self \<le> scores ! i}"
    using nth la ls by auto
  moreover have "generate_spectral_score env (sr_score_window self) (Mag frame) = Inr scores"
    using sc mag mag0 by simp
  moreover have "length (Value frame) = length (IsAnomaly frame)"
    using v v0 la by simp
  ultimately show ?thesis using lb ub ls ll lu la nth by auto
qed

theorem margin_narrows_witness:
  "\<not> isl (SpectralResidual_detect example_collaborators (example_detector anomaly_and_margin))
   \<and> sr_detect_mode (example_detector anomaly_and_margin) = anomaly_and_margin
   \<and> \<not> isl (generate_spectral_score example_collaborators 3
         (Mag (projr (SpectralResidual_detect example_collaborators
            (example_detector anomaly_and_margin)))))
   \<and> IsAnomaly (projr (SpectralResidual_detect example_collaborators
         (example_detector anomaly_and_margin))) ! 0 =
       (3 / 10 \<le> projr (generate_spectral_score example_collaborators 3
           (Mag (projr (SpectralResidual_detect example_collaborators
              (example_detector anomaly_and_margin))))) ! 0
        \<and> np_less_equal
            (the (LowerBoundary (projr (SpectralResidual_detect example_collaborators
               (example_detector anomaly_and_margin)))) ! 0)
            (complex_of_real (Value (projr (SpectralResidual_detect example_collaborators
               (example_detector anomaly_and_margin))) ! 0))
        \<and> np_less_equal
            (complex_of_real (Value (projr (SpectralResidual_detect example_collaborators
               (example_detector anomaly_and_margin))) ! 0))
            (the (UpperBoundary (projr (SpectralResidual_detect example_collaborators
               (example_detector anomaly_and_margin)))) ! 0))"
proof -
  let ?d = "example_detector anomaly_and_margin"
  let ?r = "SpectralResidual_detect example_collaborators ?d"
  have ok: "\<not> isl ?r" by (rule example_detector_succeeds)
  then have r: "?r = Inr (projr ?r)" by (simp add: not_isl_conv)
  have sel: "sr_detect_mode ?d = anomaly_and_margin" "sr_score_window ?d = 3"
    "sr_threshold ?d = 3 / 10" "length (sr_series ?d) = 3"
    by (simp_all add: example_detector_def SpectralResidual_init_def example_series_def)
  from SpectralResidual_detect_shape [OF r] sel
  have pos: "0 < length (IsAnomaly (projr ?r))" by simp
  from margin_narrows [OF r sel(1)] sel pos show ?thesis
    using ok by auto
qed

lemma band_filter_nth:
  assumes "i < length xs"
  shows "band_filter len xs ! i =
           (if real len * 3 / 8 \<ge> real i \<or> real i \<ge> real len * 5 / 8 then xs ! i else 0)"
  using assms by (simp add: band_filter_def nth_enumerate_eq)

lemma length_band_filter: "length (band_filter len xs) = length xs"
  by (simp add: band_filter_def)

lemma length_filtered_spectrum: "length (filtered_spectrum c) = length c"
  by (simp add: filtered_spectrum_def length_band_filter)

lemma filtered_spectrum_nth:
  assumes "i < length c"
  shows "filtered_spectrum c ! i =
           (if real (length c) * 3 / 8 \<ge> real i \<or> real i \<ge> real (length c) * 5 / 8
            then c ! i else 0)"
  using assms
  by (simp add: filtered_spectrum_def length_band_filter band_filter_nth complex_eq_iff)

lemma calculate_expected_value_stages:
  assumes "calculate_expected_value env vals idx = Inr exps"
  shows "\<exists>fft_coef.
           np_fft_fft (map complex_of_real (deanomaly_entire env vals idx)) = Inr fft_coef
         \<and> length fft_coef = length (deanomaly_entire env vals idx)
         \<and> np_fft_ifft (filtered_spectrum fft_coef) = Inr exps
         \<and> length exps = length (deanomaly_entire env vals idx)"
proof -
  from assms obtain c where
    f: "np_fft_fft (map complex_of_real (deanomaly_entire env vals idx)) = Inr c"
    and i: "np_fft_ifft (filtered_spectrum c) = Inr exps"
    by (auto simp: calculate_expected_value_def Let_def bindE_eq_Inr)
  from np_fft_fft_length [OF f] have lc: "length c = length (deanomaly_entire env vals idx)"
    by simp
  from np_fft_ifft_length [OF i] lc have "length exps = length (deanomaly_entire env vals idx)"
    by (simp add: length_filtered_spectrum)
  with f i lc show ?thesis by blast
qed

text \<open>
  Claim C8. In \<^verbatim>\<open>calculate_expected_value\<close>, over a cleaned series of length \<open>L\<close>, the
  spectrum handed to the inverse transform is zero (real and imaginary part) at every index
  \<open>i\<close> with \<open>3L/8 < i < 5L/8\<close> and equals the coefficient of the forward transform at every
  index with \<open>i \<le> 3L/8\<close> or \<open>i \<ge> 5L/8\<close>, the thresholds being exact fractions.
\<close>

theorem central_band_zeroed:
  assumes "calculate_expected_value env vals idx = Inr exps"
  shows "\<exists>fft_coef.
           np_fft_fft (map complex_of_real (deanomaly_entire env vals idx)) = Inr fft_coef
         \<and> np_fft_ifft (filtered_spectrum fft_coef) = Inr exps
         \<and> length fft_coef = length (deanomaly_entire env vals idx)
         \<and> length (filtered_spectrum fft_coef) = length fft_coef
         \<and> (\<forall>i < length fft_coef.
              (3 * real (length fft_coef) / 8 < real i \<and> real i < 5 * real (length fft_coef) / 8
                 \<longrightarrow> Re (filtered_spectrum fft_coef ! i) = 0
                   \<and> Im (filtered_spectrum fft_coef ! i) = 0)
            \<and> (real i \<le> 3 * real (length fft_coef) / 8 \<or> 5 * real (length fft_coef) / 8 \<le> real i
                 \<longrightarrow> filtered_spectrum fft_coef ! i = fft_coef ! i))"
proof -
  from calculate_expected_value_stages [OF assms] obtain fft_coef where
    f: "np_fft_fft (map complex_of_real (deanomaly_entire env vals idx)) = Inr fft_coef"
    and l: "length fft_coef = length (deanomaly_entire env vals idx)"
    and i: "np_fft_ifft (filtered_spectrum fft_coef) = Inr exps"
    by blast
  have "(3 * real (length fft_coef) / 8 < real i \<and> real i < 5 * real (length fft_coef) / 8
                 \<longrightarrow> Re (filtered_spectrum fft_coef ! i) = 0
                   \<and> Im (filtered_spectrum fft_coef ! i) = 0)
            \<and> (real i \<le> 3 * real (length fft_coef) / 8 \<or> 5 * real (length fft_coef) / 8 \<le> real i
                 \<longrightarrow> filtered_spectrum fft_coef ! i = fft_coef ! i)"
    if "i < length fft_coef" for i
    using that by (simp add: filtered_spectrum_nth)
  with f l i show ?thesis
    by (auto simp: length_filtered_spectrum)
qed

theorem central_band_zeroed_witness:
  "\<not> isl (calculate_expected_value example_collaborators [1, 2, 3, 4] [])
   \<and> deanomaly_entire example_collaborators [1, 2, 3, 4] [] = [1, 2, 3, 4]
   \<and> 3 * real 4 / 8 < real 2 \<and> real 2 < 5 * real 4 / 8
   \<and> Re (filtered_spectrum (dft (- 1) (map complex_of_real [1, 2, 3, 4])) ! 2) = 0
   \<and> Im (filtered_spectrum (dft (- 1) (map complex_of_real [1, 2, 3, 4])) ! 2) = 0
   \<and> real 1 \<le> 3 * real 4 / 8
   \<and> filtered_spectrum (dft (- 1) (map complex_of_real [1, 2, 3, 4])) ! 1
       = dft (- 1) (map complex_of_real [1, 2, 3, 4]) ! 1
   \<and> 5 * real 4 / 8 \<le> real 3
   \<and> filtered_spectrum (dft (- 1) (map complex_of_real [1, 2, 3, 4])) ! 3
       = dft (- 1) (map complex_of_real [1, 2, 3, 4]) ! 3"
proof -
  let ?c = "dft (- 1) (map complex_of_real [1, 2, 3, 4])"
  let ?r = "calculate_expected_value example_collaborators [1, 2, 3, 4] []"
  have cl: "deanomaly_entire example_collaborators [1, 2, 3, 4] [] = [1, 2, 3, 4]"
    by (simp add: example_collaborators_def upt_rec)
  then have "deanomaly_entire example_collaborators [1, 2, 3, 4] [] \<noteq> []" by simp
  from calculate_expected_value_succeeds [OF this] have ok: "\<not> isl ?r" by auto
  then have r: "?r = Inr (projr ?r)" by (simp add: not_isl_conv)
  have fc: "np_fft_fft (map complex_of_real [1, 2, 3, 4]) = Inr ?c"
    by (simp add: np_fft_fft_def)
  have lc: "length ?c = 4" by (simp add: length_dft)
  from central_band_zeroed [OF r] cl fc lc
  have band: "\<forall>i < 4.
              (3 * real 4 / 8 < real i \<and> real i < 5 * real 4 / 8
                 \<longrightarrow> Re (filtered_spectrum ?c ! i) = 0 \<and> Im (filtered_spectrum ?c ! i) = 0)
            \<and> (real i \<le> 3 * real 4 / 8 \<or> 5 * real 4 / 8 \<le> real i
                 \<longrightarrow> filtered_spectrum ?c ! i = ?c ! i)"
    by auto
  from band [rule_format, of 2] band [rule_format, of 1] band [rule_format, of 3] ok cl
  show ?thesis by simp
qed

subsection \<open>The expected value in exact arithmetic\<close>

text \<open>
  The kept band is symmetric under \<open>i \<mapsto> L - i\<close>, so for a real series the filtered
  spectrum is conjugate symmetric and the imaginary parts of its inverse transform vanish in
  exact arithmetic. What the returned complex array holds there in floating point is
  rounding residue.
\<close>

lemma dft_nth:
  assumes "k < length a"
  shows "dft s a ! k = (\<Sum>j<length a. a ! j * cis (s * 2 * pi * real j * real k / real (length a)))"
  using assms by (simp add: dft_def Let_def)

lemma cis_reflect:
  assumes "k < L"
  shows "cis (2 * pi * real j * real ((L - k) mod L) / real L)
           = cnj (cis (2 * pi * real j * real k / real L))"
proof (cases "k = 0")
  case True
  then show ?thesis by simp
next
  case False
  with assms have m: "(L - k) mod L = L - k" and L: "real L \<noteq> 0" by auto
  let ?x = "2 * pi * real j * real k / real L"
  have "2 * pi * real j * real (L - k) / real L = 2 * pi * real j + (- ?x)"
    using assms L by (simp add: of_nat_diff field_simps)
  then have "cis (2 * pi * real j * real (L - k) / real L) = cis (2 * pi * real j) * cis (- ?x)"
    by (simp only: cis_mult)
  also have "cis (2 * pi * real j) = 1"
    by (rule cis_multiple_2pi) simp
  finally show ?thesis
    unfolding m by (simp add: cis_cnj)
qed

text \<open>The forward transform of a real signal is conjugate symmetric.\<close>

lemma dft_real_reflect:
  assumes "k < length xs"
  shows "dft (- 1) (map complex_of_real xs) ! ((length xs - k) mod length xs)
           = cnj (dft (- 1) (map complex_of_real xs) ! k)"
proof -
  let ?L = "length xs"
  from assms have pos: "0 < ?L" by auto
  then have k': "(?L - k) mod ?L < ?L" by simp
  have "dft (- 1) (map complex_of_real xs) ! ((?L - k) mod ?L)
          = (\<Sum>j<?L. complex_of_real (xs ! j)
               * cis (- (2 * pi * real j * real ((?L - k) mod ?L) / real ?L)))"
    using k' by (simp add: dft_nth)
  also have "\<dots> = (\<Sum>j<?L. complex_of_real (xs ! j)
               * cnj (cis (- (2 * pi * real j * real k / real ?L))))"
    by (rule sum.cong) (simp_all add: cis_cnj [symmetric] cis_reflect [OF assms])
  also have "\<dots> = cnj (dft (- 1) (map complex_of_real xs) ! k)"
    using assms by (simp add: dft_nth)
  finally show ?thesis .
qed

lemma keep_reflect:
  assumes "k < L"
  shows "(real L * 3 / 8 \<ge> real ((L - k) mod L) \<or> real ((L - k) mod L) \<ge> real L * 5 / 8)
           \<longleftrightarrow> (real L * 3 / 8 \<ge> real k \<or> real k \<ge> real L * 5 / 8)"
proof (cases "k = 0")
  case True
  then show ?thesis by simp
next
  case False
  with assms have m: "(L - k) mod L = L - k" by auto
  from assms have "real (L - k) = real L - real k" by (simp add: of_nat_diff)
  then show ?thesis unfolding m by auto
qed

lemma filtered_spectrum_reflect:
  assumes "k < length xs"
  shows "filtered_spectrum (dft (- 1) (map complex_of_real xs)) ! ((length xs - k) mod length xs)
           = cnj (filtered_spectrum (dft (- 1) (map complex_of_real xs)) ! k)"
proof -
  let ?L = "length xs"
  from assms have "0 < ?L" by auto
  then have k': "(?L - k) mod ?L < ?L" by simp
  show ?thesis
    using assms k' keep_reflect [OF assms] dft_real_reflect [OF assms]
    by (simp add: filtered_spectrum_nth length_dft)
qed

text \<open>The inverse transform of a conjugate-symmetric spectrum is real.\<close>

lemma dft_inverse_real:
  assumes sym: "\<And>k. k < length F \<Longrightarrow> F ! ((length F - k) mod length F) = cnj (F ! k)"
    and t: "t < length F"
  shows "cnj (dft 1 F ! t) = dft 1 F ! t"
proof -
  let ?L = "length F"
  let ?s = "\<lambda>k. (?L - k) mod ?L"
  from t have pos: "0 < ?L" by auto
  have inv: "?s (?s k) = k" if "k < ?L" for k
    using that by (cases "k = 0") auto
  have ran: "?s k < ?L" for k
    using pos by simp
  have w: "cis (2 * pi * real (?s k) * real t / real ?L)
             = cnj (cis (2 * pi * real k * real t / real ?L))" if "k < ?L" for k
  proof -
    have a: "2 * pi * real (?s k) * real t / real ?L = 2 * pi * real t * real (?s k) / real ?L"
      by (simp add: algebra_simps)
    have b: "2 * pi * real k * real t / real ?L = 2 * pi * real t * real k / real ?L"
      by (simp add: algebra_simps)
    show ?thesis unfolding a b by (rule cis_reflect [OF that])
  qed
  have "cnj (dft 1 F ! t) = (\<Sum>k<?L. cnj (F ! k) * cnj (cis (2 * pi * real k * real t / real ?L)))"
    using t by (simp add: dft_nth)
  also have "\<dots> = (\<Sum>k<?L. F ! ?s k * cis (2 * pi * real (?s k) * real t / real ?L))"
    by (rule sum.cong) (simp_all add: sym w)
  also have "\<dots> = (\<Sum>k<?L. F ! k * cis (2 * pi * real k * real t / real ?L))"
    by (rule sum.reindex_bij_witness [of _ ?s ?s]) (simp_all add: inv ran)
  also have "\<dots> = dft 1 F ! t"
    using t by (simp add: dft_nth)
  finally show ?thesis .
qed

lemma calculate_expected_value_real:
  assumes "calculate_expected_value env vals idx = Inr exps" and "t < length exps"
  shows "Im (exps ! t) = 0"
proof -
  let ?xs = "deanomaly_entire env vals idx"
  let ?F = "filtered_spectrum (dft (- 1) (map complex_of_real ?xs))"
  from calculate_expected_value_stages [OF assms(1)] obtain c where
    f: "np_fft_fft (map complex_of_real ?xs) = Inr c"
    and i: "np_fft_ifft (filtered_spectrum c) = Inr exps"
    and le: "length exps = length ?xs"
    by blast
  from f have c: "c = dft (- 1) (map complex_of_real ?xs)"
    by (auto simp: np_fft_fft_def split: if_splits)
  have lF: "length ?F = length ?xs"
    by (simp add: length_filtered_spectrum length_dft)
  from i c have exps: "exps = map (\<lambda>z. z / of_nat (length ?F)) (dft 1 ?F)"
    by (auto simp: np_fft_ifft_def split: if_splits)
  from assms(2) le lF have tF: "t < length ?F" by simp
  have "cnj (dft 1 ?F ! t) = dft 1 ?F ! t"
  proof (rule dft_inverse_real [OF _ tF])
    fix k assume "k < length ?F"
    with lF have "k < length ?xs" by simp
    from filtered_spectrum_reflect [OF this] lF
    show "?F ! ((length ?F - k) mod length ?F) = cnj (?F ! k)" by simp
  qed
  then have "Im (dft 1 ?F ! t) = 0"
    by (simp add: complex_eq_iff)
  moreover have "exps ! t = dft 1 ?F ! t / of_nat (length ?F)"
    using tF unfolding exps by (simp add: length_dft)
  ultimately show ?thesis
    by (simp add: Im_divide_of_nat)
qed

subsection \<open>The array that calculate_expected_value returns\<close>









end
